theory Spec2Isabelle
  imports Complex_Main
begin

section \<open>The training and evaluation loop of main.py\<close>

text \<open>
  The development embeds the function \<open>train\<close> of \<open>main.py\<close>: the two closures
  \<open>train_loop\<close> and \<open>test_loop\<close> and the epoch loop that calls them. The network,
  the loss, the optimizer, the scheduler and the data sets are imported by
  \<open>main.py\<close> from other modules; they are parameters of the embedding. Python
  integers are \<open>int\<close>, numpy's 64-bit integers are \<open>int\<close> with the
  wrap-around written out, indices and counters that start at zero are \<open>nat\<close>,
  and a floating-point loss is an idealised \<open>real\<close>.
\<close>

subsection \<open>Values\<close>

text \<open>Exceptions that the code of \<open>train\<close> itself can raise.\<close>

datatype error = UnboundLocalError | ZeroDivisionError

text \<open>
  The quotient of a tensor by a numpy float does not raise when the divisor is
  zero: the result is an infinity or a NaN. \<open>NonFinite\<close> stands for both.
\<close>

datatype fval = Finite real | NonFinite

definition fdiv :: "real \<Rightarrow> real \<Rightarrow> fval" where
  "fdiv x d = (if d = 0 then NonFinite else Finite (x / d))"

text \<open>
  \<open>np.prod\<close> of a tuple of Python integers is a signed 64-bit integer, and so
  is its product with a Python integer: both wrap around modulo \<open>2 ^ 64\<close>
  without raising. \<open>wrap64\<close> is the signed value of an integer modulo
  \<open>2 ^ 64\<close> (the two numerals are \<open>2 ^ 63\<close> and \<open>2 ^ 64\<close>); the wrapped
  product of a sequence is the wrapped value of its exact product. The
  dimensions and the Python factor are taken to fit in 64 bits, which numpy
  needs to treat them as 64-bit integers at all.
\<close>

definition wrap64 :: "int \<Rightarrow> int" where
  "wrap64 x = (x + 9223372036854775808) mod 18446744073709551616 - 9223372036854775808"

definition np_prod :: "int list \<Rightarrow> int" where
  "np_prod shape = wrap64 (prod_list shape)"

text \<open>The decimal text of a non-negative integer, as \<open>'{}'.format\<close> prints it.\<close>

fun str_nat :: "nat \<Rightarrow> string" where
  "str_nat n =
     (if n < 10 then [''0123456789'' ! n]
      else str_nat (n div 10) @ [''0123456789'' ! (n mod 10)])"

declare str_nat.simps [simp del]

subsection \<open>Configuration and collaborators\<close>

text \<open>The fields of \<open>pcnnpp.config\<close> that the loop reads.\<close>

record config =
  use_tpu :: bool
  batch_size :: int
  print_every :: int
  save_interval :: int
  max_epochs :: int

text \<open>
  What \<open>train\<close> obtains from other modules before the loop starts. A batch is the
  list of its examples. \<open>loss_function C m p b\<close> is
  \<open>loss_function(input, model(input))\<close> for the batch \<open>b\<close>, with the model in
  training mode iff \<open>m\<close> and parameters \<open>p\<close>. \<open>optimizer_step\<close> is
  \<open>optimizer.zero_grad(); loss.backward(); optimizer.step()\<close>, and
  \<open>xm_optimizer_step\<close> the same with \<open>xm.optimizer_step(optimizer)\<close>; both
  return the new optimizer state and the new parameters. \<open>scheduler_step\<close> is
  \<open>scheduler.step(epoch)\<close>. \<open>input_shape\<close> is \<open>dataset_test.input_shape()\<close> and
  \<open>model_name\<close> the module-level string of that name.
\<close>

record ('x, 'p, 'o) collab =
  loss_function :: "bool \<Rightarrow> 'p \<Rightarrow> 'x list \<Rightarrow> real"
  optimizer_step :: "'o \<Rightarrow> 'p \<Rightarrow> 'x list \<Rightarrow> 'o \<times> 'p"
  xm_optimizer_step :: "'o \<Rightarrow> 'p \<Rightarrow> 'x list \<Rightarrow> 'o \<times> 'p"
  scheduler_step :: "nat \<Rightarrow> 'o \<Rightarrow> 'o"
  input_shape :: "int list"
  model_name :: string

subsection \<open>State and trace\<close>

text \<open>
  What the loop does to the outside, in order: a forward pass of the model
  (with the model's mode and torch's gradient mode at that moment), a scalar
  given to the tensorboard writer (tag, value, step), the three progress prints
  that carry a value, \<open>torch.save\<close> of the parameters to a path, and
  \<open>utils.save_image\<close> to a path with its \<open>nrow\<close> and \<open>padding\<close>.
\<close>

datatype 'p event =
    Forward bool bool
  | AddScalar string fval nat
  | PrintFlush nat fval
  | PrintFinished nat "real option"
  | PrintValidation nat fval
  | TorchSave string 'p
  | SaveImage string nat nat

record ('p, 'o) state =
  params :: 'p
  opt :: 'o
  training :: bool
  grad_enabled :: bool
  events :: "'p event list"

text \<open>
  The state when the epoch loop starts: a module is created in training mode,
  torch records gradients unless told otherwise, and nothing has been written.
\<close>

definition initial_state :: "'p \<Rightarrow> 'o \<Rightarrow> ('p, 'o) state" where
  "initial_state p ob =
     \<lparr>params = p, opt = ob, training = True, grad_enabled = True, events = []\<rparr>"

definition emit :: "'p event list \<Rightarrow> ('p, 'o) state \<Rightarrow> ('p, 'o) state" where
  "emit es st = st\<lparr>events := events st @ es\<rparr>"

subsection \<open>The data loaders (lines 42 to 61)\<close>

text \<open>
  \<open>DistributedSampler\<close> and \<open>get_dataloader\<close> are not defined in \<open>main.py\<close>;
  the embedding records the calls and their arguments. \<open>provider\<close> is the data
  set whose \<open>get_dataloader\<close> is called; \<open>None\<close> for the batch size is the
  method's default. \<open>test_batch_size\<close> is \<open>config.test_batch_size\<close>, and
  \<open>world\<close> and \<open>ordinal\<close> are \<open>xm.xrt_world_size()\<close> and
  \<open>xm.get_ordinal()\<close>.
\<close>

record 'd sampler =
  sampled :: 'd
  num_replicas :: nat
  rank :: nat
  sampler_shuffle :: bool

record 'd loader =
  provider :: 'd
  loader_sampler :: "'d sampler option"
  loader_shuffle :: bool
  loader_batch_size :: "int option"

definition make_samplers ::
  "config \<Rightarrow> 'd \<Rightarrow> nat \<Rightarrow> nat \<Rightarrow> 'd sampler option \<times> 'd sampler option" where
  "make_samplers cfg dataset_train world ordinal =
     (if use_tpu cfg then
        (Some \<lparr>sampled = dataset_train, num_replicas = world, rank = ordinal,
                sampler_shuffle = True\<rparr>,
         Some \<lparr>sampled = dataset_train, num_replicas = world, rank = ordinal,
                sampler_shuffle = True\<rparr>)
      else (None, None))"

definition make_loaders ::
  "config \<Rightarrow> int \<Rightarrow> 'd \<Rightarrow> 'd \<Rightarrow> nat \<Rightarrow> nat \<Rightarrow> 'd loader \<times> 'd loader" where
  "make_loaders cfg test_batch_size dataset_train dataset_test world ordinal =
     (let (train_sampler, test_sampler) = make_samplers cfg dataset_train world ordinal
      in (\<lparr>provider = dataset_train, loader_sampler = train_sampler,
            loader_shuffle = (\<not> use_tpu cfg), loader_batch_size = None\<rparr>,
          \<lparr>provider = dataset_test, loader_sampler = test_sampler,
            loader_shuffle = (\<not> use_tpu cfg),
            loader_batch_size = Some test_batch_size\<rparr>))"

subsection \<open>The training pass (lines 84 to 120)\<close>

text \<open>
  The body of the \<open>for\<close> loop over \<open>enumerate(data_loader)\<close>. The accumulator is
  \<open>(new_writes, train_loss, state)\<close>; \<open>i\<close> is \<open>batch_idx\<close>. The modulus by a
  zero \<open>print_every\<close> raises.
\<close>

definition train_deno :: "config \<Rightarrow> ('x, 'p, 'o) collab \<Rightarrow> real" where
  "train_deno cfg C =
     real_of_int (wrap64 (print_every cfg * batch_size cfg * np_prod (input_shape C))) *
     ln 2"

fun train_batches ::
  "config \<Rightarrow> ('x, 'p, 'o) collab \<Rightarrow> nat \<Rightarrow> nat \<Rightarrow> 'x list list \<Rightarrow>
   nat \<times> real \<times> ('p, 'o) state \<Rightarrow> error + nat \<times> real \<times> ('p, 'o) state" where
  "train_batches cfg C writes i [] acc = Inr acc"
| "train_batches cfg C writes i (b # bs) (new_writes, train_loss, st) =
     (let loss = loss_function C (training st) (params st) b;
          st1 = emit [Forward (training st) (grad_enabled st)] st;
          (ob, p) = (if use_tpu cfg then xm_optimizer_step C (opt st1) (params st1) b
                     else optimizer_step C (opt st1) (params st1) b);
          st2 = st1\<lparr>params := p, opt := ob\<rparr>;
          train_loss = train_loss + loss
      in if print_every cfg = 0 then Inl ZeroDivisionError
         else if (int i + 1) mod print_every cfg = 0 then
           (let v = fdiv train_loss (train_deno cfg C);
                st3 = emit ((if \<not> use_tpu cfg
                             then [AddScalar ''train/bpd'' v (writes + new_writes)]
                             else []) @ [PrintFlush i v]) st2
            in train_batches cfg C writes (Suc i) bs (new_writes + 1, 0, st3))
         else train_batches cfg C writes (Suc i) bs (new_writes, train_loss, st2))"

text \<open>
  \<open>model.train()\<close>, the loop, then \<open>del loss, output\<close>, which raises when the
  loop body never ran and the two names are unbound.
\<close>

definition train_loop ::
  "config \<Rightarrow> ('x, 'p, 'o) collab \<Rightarrow> 'x list list \<Rightarrow> nat \<Rightarrow> ('p, 'o) state \<Rightarrow>
   error + nat \<times> real \<times> ('p, 'o) state" where
  "train_loop cfg C data_loader writes st =
     (case train_batches cfg C writes 0 data_loader (0, 0, st\<lparr>training := True\<rparr>) of
        Inl e \<Rightarrow> Inl e
      | Inr acc \<Rightarrow> if data_loader = [] then Inl UnboundLocalError else Inr acc)"

subsection \<open>The evaluation pass (lines 122 to 152)\<close>

fun test_batches ::
  "('x, 'p, 'o) collab \<Rightarrow> 'x list list \<Rightarrow> real \<times> ('p, 'o) state \<Rightarrow>
   real \<times> ('p, 'o) state" where
  "test_batches C [] acc = acc"
| "test_batches C (b # bs) (test_loss, st) =
     (let loss = loss_function C (training st) (params st) b;
          st1 = emit [Forward (training st) (grad_enabled st)] st
      in test_batches C bs (test_loss + loss, st1))"

text \<open>
  After the loop \<open>batch_idx\<close> is the index of the last batch; with no batch it
  is unbound and reading it raises. \<open>sample\<close> and \<open>rescaling_inv\<close>, which
  produce the image that is saved, are imported from other modules and are
  taken to read the model only.
\<close>

definition test_deno :: "config \<Rightarrow> ('x, 'p, 'o) collab \<Rightarrow> nat \<Rightarrow> real" where
  "test_deno cfg C batch_idx =
     real_of_int (wrap64 (int batch_idx * batch_size cfg * np_prod (input_shape C))) *
     ln 2"

definition checkpoint_path :: "string \<Rightarrow> nat \<Rightarrow> string" where
  "checkpoint_path name epoch = ''models/'' @ name @ ''_'' @ str_nat epoch @ ''.pth''"

definition image_path :: "string \<Rightarrow> nat \<Rightarrow> string" where
  "image_path name epoch = ''images/'' @ name @ ''_'' @ str_nat epoch @ ''.png''"

definition test_loop ::
  "config \<Rightarrow> ('x, 'p, 'o) collab \<Rightarrow> 'x list list \<Rightarrow> nat \<Rightarrow> nat \<Rightarrow> ('p, 'o) state \<Rightarrow>
   error + real \<times> ('p, 'o) state" where
  "test_loop cfg C data_loader writes epoch st =
     (let (test_loss, st1) = test_batches C data_loader (0, st\<lparr>training := False\<rparr>)
      in if data_loader = [] then Inl UnboundLocalError
         else
           (let batch_idx = length data_loader - 1;
                v = fdiv test_loss (test_deno cfg C batch_idx);
                st2 = emit [AddScalar ''test/bpd'' v writes, PrintValidation epoch v] st1
            in if save_interval cfg = 0 then Inl ZeroDivisionError
               else if (int epoch + 1) mod save_interval cfg = 0 then
                 Inr (test_loss,
                      emit [TorchSave (checkpoint_path (model_name C) epoch) (params st2),
                            SaveImage (image_path (model_name C) epoch) 5 0] st2)
               else Inr (test_loss, st2)))"

subsection \<open>The epoch loop (lines 154 to 174)\<close>

text \<open>
  One iteration of \<open>for epoch in range(config.max_epochs)\<close> on the pair of the
  local \<open>writes\<close> and the state. The parallel loader of the multi-replica
  branch yields the batches of the loader it wraps.
\<close>

definition epoch_body ::
  "config \<Rightarrow> ('x, 'p, 'o) collab \<Rightarrow> 'x list list \<Rightarrow> 'x list list \<Rightarrow> nat \<Rightarrow>
   nat \<times> ('p, 'o) state \<Rightarrow> error + nat \<times> ('p, 'o) state" where
  "epoch_body cfg C train_loader test_loader epoch ws =
     (case ws of (writes, st) \<Rightarrow>
        (case train_loop cfg C train_loader writes st of
           Inl e \<Rightarrow> Inl e
         | Inr (new_writes, train_loss, st1) \<Rightarrow>
             (let (writes1, st2) =
                    (if use_tpu cfg then (writes, emit [PrintFinished epoch None] st1)
                     else (writes + new_writes,
                           emit [PrintFinished epoch (Some train_loss)] st1));
                  st3 = st2\<lparr>opt := scheduler_step C epoch (opt st2)\<rparr>
              in case test_loop cfg C test_loader writes1 epoch st3 of
                   Inl e \<Rightarrow> Inl e
                 | Inr (test_loss, st4) \<Rightarrow> Inr (writes1 + 1, st4))))"

fun epochs ::
  "config \<Rightarrow> ('x, 'p, 'o) collab \<Rightarrow> 'x list list \<Rightarrow> 'x list list \<Rightarrow> nat list \<Rightarrow>
   nat \<times> ('p, 'o) state \<Rightarrow> error + nat \<times> ('p, 'o) state" where
  "epochs cfg C train_loader test_loader [] ws = Inr ws"
| "epochs cfg C train_loader test_loader (epoch # rest) ws =
     (case epoch_body cfg C train_loader test_loader epoch ws of
        Inl e \<Rightarrow> Inl e
      | Inr ws1 \<Rightarrow> epochs cfg C train_loader test_loader rest ws1)"

text \<open>
  The loop of \<open>train\<close>: \<open>writes = 0\<close>, then the epochs of
  \<open>range(config.max_epochs)\<close>, from the model parameters \<open>p\<close> and the optimizer
  state \<open>ob\<close> that the set-up before the loop has produced.
\<close>

definition train ::
  "config \<Rightarrow> ('x, 'p, 'o) collab \<Rightarrow> 'x list list \<Rightarrow> 'x list list \<Rightarrow> 'p \<Rightarrow> 'o \<Rightarrow>
   error + nat \<times> ('p, 'o) state" where
  "train cfg C train_loader test_loader p ob =
     epochs cfg C train_loader test_loader [0..<nat (max_epochs cfg)]
       (0, initial_state p ob)"

subsection \<open>Observations on a run\<close>

text \<open>The final value of \<open>writes\<close> and the trace of a run; an aborted run has neither.\<close>

fun writes_of :: "error + nat \<times> ('p, 'o) state \<Rightarrow> nat option" where
  "writes_of (Inl e) = None"
| "writes_of (Inr (w, st)) = Some w"

fun trace_of :: "error + 'a \<times> ('p, 'o) state \<Rightarrow> 'p event list" where
  "trace_of (Inl e) = []"
| "trace_of (Inr (w, st)) = events st"

text \<open>The scalars given to the writer, in order, as (tag, value, step).\<close>

fun scalar_of :: "'p event \<Rightarrow> (string \<times> fval \<times> nat) list" where
  "scalar_of (AddScalar t v s) = [(t, v, s)]"
| "scalar_of (Forward m g) = []"
| "scalar_of (PrintFlush i v) = []"
| "scalar_of (PrintFinished e l) = []"
| "scalar_of (PrintValidation e v) = []"
| "scalar_of (TorchSave f p) = []"
| "scalar_of (SaveImage f r d) = []"

definition scalars :: "'p event list \<Rightarrow> (string \<times> fval \<times> nat) list" where
  "scalars es = concat (map scalar_of es)"

fun tag_step :: "string \<times> fval \<times> nat \<Rightarrow> string \<times> nat" where
  "tag_step (t, v, s) = (t, s)"

fun step_of :: "string \<times> fval \<times> nat \<Rightarrow> nat" where
  "step_of (t, v, s) = s"

fun value_of :: "string \<times> fval \<times> nat \<Rightarrow> fval" where
  "value_of (t, v, s) = v"

definition scalar_values :: "string \<Rightarrow> 'p event list \<Rightarrow> fval list" where
  "scalar_values tag es = map value_of (filter (\<lambda>x. fst x = tag) (scalars es))"

text \<open>A flush of the training pass is the moment its progress line is printed.\<close>

fun is_flush :: "'p event \<Rightarrow> bool" where
  "is_flush (PrintFlush i v) = True"
| "is_flush (Forward m g) = False"
| "is_flush (AddScalar t v s) = False"
| "is_flush (PrintFinished e l) = False"
| "is_flush (PrintValidation e v) = False"
| "is_flush (TorchSave f p) = False"
| "is_flush (SaveImage f r d) = False"

definition flush_count :: "'p event list \<Rightarrow> nat" where
  "flush_count es = length (filter is_flush es)"

text \<open>The files written: a checkpoint at a path, an image grid at a path with
  its images per row and its padding.\<close>

datatype artifact = Checkpoint string | ImageGrid string nat nat

fun artifact_of :: "'p event \<Rightarrow> artifact list" where
  "artifact_of (TorchSave f p) = [Checkpoint f]"
| "artifact_of (SaveImage f r d) = [ImageGrid f r d]"
| "artifact_of (Forward m g) = []"
| "artifact_of (AddScalar t v s) = []"
| "artifact_of (PrintFlush i v) = []"
| "artifact_of (PrintFinished e l) = []"
| "artifact_of (PrintValidation e v) = []"

definition artifacts :: "'p event list \<Rightarrow> artifact list" where
  "artifacts es = concat (map artifact_of es)"

fun is_forward :: "'p event \<Rightarrow> bool" where
  "is_forward (Forward m g) = True"
| "is_forward (AddScalar t v s) = False"
| "is_forward (PrintFlush i v) = False"
| "is_forward (PrintFinished e l) = False"
| "is_forward (PrintValidation e v) = False"
| "is_forward (TorchSave f p) = False"
| "is_forward (SaveImage f r d) = False"

definition forwards :: "'p event list \<Rightarrow> 'p event list" where
  "forwards es = filter is_forward es"

text \<open>The training losses printed after the epochs.\<close>

fun finished_of :: "'p event \<Rightarrow> (nat \<times> real option) list" where
  "finished_of (PrintFinished e l) = [(e, l)]"
| "finished_of (Forward m g) = []"
| "finished_of (AddScalar t v s) = []"
| "finished_of (PrintFlush i v) = []"
| "finished_of (PrintValidation e v) = []"
| "finished_of (TorchSave f p) = []"
| "finished_of (SaveImage f r d) = []"

definition finished :: "'p event list \<Rightarrow> (nat \<times> real option) list" where
  "finished es = concat (map finished_of es)"

text \<open>
  The optimizer steps of one training pass, and the losses it computes: the
  loss of a batch is taken in training mode with the parameters that the steps
  on the batches before it have left.
\<close>

fun apply_steps ::
  "config \<Rightarrow> ('x, 'p, 'o) collab \<Rightarrow> 'x list list \<Rightarrow> 'o \<times> 'p \<Rightarrow> 'o \<times> 'p" where
  "apply_steps cfg C [] s = s"
| "apply_steps cfg C (b # bs) (ob, p) =
     apply_steps cfg C bs
       (if use_tpu cfg then xm_optimizer_step C ob p b else optimizer_step C ob p b)"

fun pass_losses ::
  "config \<Rightarrow> ('x, 'p, 'o) collab \<Rightarrow> 'x list list \<Rightarrow> 'o \<times> 'p \<Rightarrow> real list" where
  "pass_losses cfg C [] s = []"
| "pass_losses cfg C (b # bs) (ob, p) =
     loss_function C True p b #
     pass_losses cfg C bs
       (if use_tpu cfg then xm_optimizer_step C ob p b else optimizer_step C ob p b)"

subsection \<open>A concrete instance\<close>

text \<open>
  Collaborators on which the loop can be evaluated: an example is its own loss,
  the loss of a batch is the sum over its examples, the parameters count the
  optimizer steps and the optimizer state counts the scheduler steps.
\<close>

definition counting_collab :: "int list \<Rightarrow> (real, nat, nat) collab" where
  "counting_collab shape =
     \<lparr>loss_function = (\<lambda>m p b. sum_list b),
      optimizer_step = (\<lambda>ob p b. (ob, Suc p)),
      xm_optimizer_step = (\<lambda>ob p b. (ob, Suc p)),
      scheduler_step = (\<lambda>e ob. Suc ob),
      input_shape = shape,
      model_name = ''m''\<rparr>"

definition run_config :: "bool \<Rightarrow> int \<Rightarrow> int \<Rightarrow> int \<Rightarrow> int \<Rightarrow> config" where
  "run_config tpu bsz pe si me =
     \<lparr>use_tpu = tpu, batch_size = bsz, print_every = pe, save_interval = si,
      max_epochs = me\<rparr>"

subsection \<open>The metric as the specification words it\<close>

text \<open>
  The specification's formula: the summed loss over the number of examples it
  was summed over, times the product of the input dimensions, times \<open>ln 2\<close>.
  It is stated apart from the code, to be compared with what the code logs.
\<close>

definition spec_bpd :: "real \<Rightarrow> nat \<Rightarrow> int list \<Rightarrow> fval" where
  "spec_bpd loss_sum n_examples shape =
     fdiv loss_sum (real n_examples * real_of_int (prod_list shape) * ln 2)"

section \<open>Properties of the passes\<close>

subsection \<open>The trace and its observations\<close>

lemma events_emit [simp]: "events (emit es st) = events st @ es"
  and params_emit [simp]: "params (emit es st) = params st"
  and opt_emit [simp]: "opt (emit es st) = opt st"
  and training_emit [simp]: "training (emit es st) = training st"
  and grad_enabled_emit [simp]: "grad_enabled (emit es st) = grad_enabled st"
  by (simp_all add: emit_def)

lemma emit_Nil [simp]: "emit [] st = st"
  by (simp add: emit_def)

lemma emit_emit [simp]: "emit ys (emit xs st) = emit (xs @ ys) st"
  by (simp add: emit_def)

lemma scalars_append [simp]: "scalars (xs @ ys) = scalars xs @ scalars ys"
  by (simp add: scalars_def)

lemma scalars_simps [simp]:
  "scalars [] = []" "scalars (e # es) = scalar_of e @ scalars es"
  by (simp_all add: scalars_def)

lemma flush_count_append [simp]: "flush_count (xs @ ys) = flush_count xs + flush_count ys"
  by (simp add: flush_count_def)

lemma flush_count_simps [simp]:
  "flush_count [] = 0" "flush_count (e # es) = (if is_flush e then 1 else 0) + flush_count es"
  by (simp_all add: flush_count_def)

lemma artifacts_append [simp]: "artifacts (xs @ ys) = artifacts xs @ artifacts ys"
  by (simp add: artifacts_def)

lemma artifacts_simps [simp]:
  "artifacts [] = []" "artifacts (e # es) = artifact_of e @ artifacts es"
  by (simp_all add: artifacts_def)

lemma forwards_append [simp]: "forwards (xs @ ys) = forwards xs @ forwards ys"
  by (simp add: forwards_def)

lemma forwards_simps [simp]:
  "forwards [] = []" "forwards (e # es) = (if is_forward e then [e] else []) @ forwards es"
  by (simp_all add: forwards_def)

lemma finished_append [simp]: "finished (xs @ ys) = finished xs @ finished ys"
  by (simp add: finished_def)

lemma finished_simps [simp]:
  "finished [] = []" "finished (e # es) = finished_of e @ finished es"
  by (simp_all add: finished_def)

lemma train_batches_step:
  fixes st :: "('p, 'o) state"
  assumes "train_batches cfg C w i (b # bs) (nw, lo, st) = Inr r"
  shows "print_every cfg \<noteq> 0 \<and>
    (\<exists>st1. (opt st1, params st1) = apply_steps cfg C [b] (opt st, params st) \<and>
       training st1 = training st \<and> grad_enabled st1 = grad_enabled st \<and>
       events st1 = events st @ Forward (training st) (grad_enabled st) #
         (if (int i + 1) mod print_every cfg = 0
          then (if use_tpu cfg then []
                else [AddScalar ''train/bpd''
                        (fdiv (lo + loss_function C (training st) (params st) b)
                           (train_deno cfg C)) (w + nw)]) @
               [PrintFlush i (fdiv (lo + loss_function C (training st) (params st) b)
                           (train_deno cfg C))]
          else []) \<and>
       train_batches cfg C w (Suc i) bs
         (if (int i + 1) mod print_every cfg = 0 then (nw + 1, 0, st1)
          else (nw, lo + loss_function C (training st) (params st) b, st1)) = Inr r)"
proof -
  obtain ob p where sp: "apply_steps cfg C [b] (opt st, params st) = (ob, p)"
    by (cases "apply_steps cfg C [b] (opt st, params st)")
  define v where "v = fdiv (lo + loss_function C (training st) (params st) b) (train_deno cfg C)"
  define new :: "'p event list" where "new = (if (int i + 1) mod print_every cfg = 0
          then (if use_tpu cfg then [] else [AddScalar ''train/bpd'' v (w + nw)]) @
               [PrintFlush i v]
          else [])"
  define st1 where
    "st1 = emit new ((emit [Forward (training st) (grad_enabled st)] st)\<lparr>params := p, opt := ob\<rparr>)"
  have unfold: "train_batches cfg C w i (b # bs) (nw, lo, st) =
     (if print_every cfg = 0 then Inl ZeroDivisionError
      else train_batches cfg C w (Suc i) bs
         (if (int i + 1) mod print_every cfg = 0 then (nw + 1, 0, st1)
          else (nw, lo + loss_function C (training st) (params st) b, st1)))"
    using sp by (auto simp: Let_def st1_def new_def v_def)
  have pe: "print_every cfg \<noteq> 0"
    using assms unfolding unfold by (auto split: if_splits)
  have rec: "train_batches cfg C w (Suc i) bs
         (if (int i + 1) mod print_every cfg = 0 then (nw + 1, 0, st1)
          else (nw, lo + loss_function C (training st) (params st) b, st1)) = Inr r"
    using assms pe unfolding unfold by simp
  have "(opt st1, params st1) = (ob, p)"
    by (simp add: st1_def)
  then have "(opt st1, params st1) = apply_steps cfg C [b] (opt st, params st)"
    unfolding sp .
  moreover have "training st1 = training st" "grad_enabled st1 = grad_enabled st"
    "events st1 = events st @ Forward (training st) (grad_enabled st) # new"
    by (simp_all add: st1_def)
  ultimately show ?thesis
    using pe rec
    unfolding new_def v_def by blast
qed

lemma train_batches_scalars:
  "train_batches cfg C w i bs (nw, lo, st) = Inr (nw', lo', st') \<Longrightarrow>
   nw \<le> nw' \<and>
   map tag_step (scalars (events st')) =
     map tag_step (scalars (events st)) @
     (if use_tpu cfg then [] else map (Pair ''train/bpd'') [w + nw..<w + nw'])"
proof (induction bs arbitrary: i nw lo st)
  case Nil
  then show ?case by simp
next
  case (Cons b bs)
  from train_batches_step [OF Cons.prems] obtain st1 where
    ev: "events st1 = events st @ Forward (training st) (grad_enabled st) #
         (if (int i + 1) mod print_every cfg = 0
          then (if use_tpu cfg then []
                else [AddScalar ''train/bpd''
                        (fdiv (lo + loss_function C (training st) (params st) b)
                           (train_deno cfg C)) (w + nw)]) @
               [PrintFlush i (fdiv (lo + loss_function C (training st) (params st) b)
                           (train_deno cfg C))]
          else [])"
    and rec: "train_batches cfg C w (Suc i) bs
         (if (int i + 1) mod print_every cfg = 0 then (nw + 1, 0, st1)
          else (nw, lo + loss_function C (training st) (params st) b, st1)) =
         Inr (nw', lo', st')"
    by blast
  show ?case
  proof (cases "(int i + 1) mod print_every cfg = 0")
    case True
    with rec have "train_batches cfg C w (Suc i) bs (nw + 1, 0, st1) = Inr (nw', lo', st')"
      by simp
    from Cons.IH [OF this] ev True show ?thesis
      by (auto simp: upt_conv_Cons)
  next
    case False
    with rec have "train_batches cfg C w (Suc i) bs
        (nw, lo + loss_function C (training st) (params st) b, st1) = Inr (nw', lo', st')"
      by simp
    from Cons.IH [OF this] ev False show ?thesis by simp
  qed
qed

lemma train_batches_flushes:
  "train_batches cfg C w i bs (nw, lo, st) = Inr (nw', lo', st') \<Longrightarrow>
   flush_count (events st') + nw = flush_count (events st) + nw'"
proof (induction bs arbitrary: i nw lo st)
  case Nil
  then show ?case by simp
next
  case (Cons b bs)
  from train_batches_step [OF Cons.prems] obtain st1 where
    ev: "events st1 = events st @ Forward (training st) (grad_enabled st) #
         (if (int i + 1) mod print_every cfg = 0
          then (if use_tpu cfg then []
                else [AddScalar ''train/bpd''
                        (fdiv (lo + loss_function C (training st) (params st) b)
                           (train_deno cfg C)) (w + nw)]) @
               [PrintFlush i (fdiv (lo + loss_function C (training st) (params st) b)
                           (train_deno cfg C))]
          else [])"
    and rec: "train_batches cfg C w (Suc i) bs
         (if (int i + 1) mod print_every cfg = 0 then (nw + 1, 0, st1)
          else (nw, lo + loss_function C (training st) (params st) b, st1)) =
         Inr (nw', lo', st')"
    by blast
  show ?case
  proof (cases "(int i + 1) mod print_every cfg = 0")
    case True
    with rec have "train_batches cfg C w (Suc i) bs (nw + 1, 0, st1) = Inr (nw', lo', st')"
      by simp
    from Cons.IH [OF this] ev True show ?thesis by simp
  next
    case False
    with rec have "train_batches cfg C w (Suc i) bs
        (nw, lo + loss_function C (training st) (params st) b, st1) = Inr (nw', lo', st')"
      by simp
    from Cons.IH [OF this] ev False show ?thesis by simp
  qed
qed

lemma train_batches_quiet:
  "train_batches cfg C w i bs (nw, lo, st) = Inr (nw', lo', st') \<Longrightarrow>
   artifacts (events st') = artifacts (events st) \<and>
   finished (events st') = finished (events st)"
proof (induction bs arbitrary: i nw lo st)
  case Nil
  then show ?case by simp
next
  case (Cons b bs)
  from train_batches_step [OF Cons.prems] obtain st1 where
    ev: "events st1 = events st @ Forward (training st) (grad_enabled st) #
         (if (int i + 1) mod print_every cfg = 0
          then (if use_tpu cfg then []
                else [AddScalar ''train/bpd''
                        (fdiv (lo + loss_function C (training st) (params st) b)
                           (train_deno cfg C)) (w + nw)]) @
               [PrintFlush i (fdiv (lo + loss_function C (training st) (params st) b)
                           (train_deno cfg C))]
          else [])"
    and rec: "train_batches cfg C w (Suc i) bs
         (if (int i + 1) mod print_every cfg = 0 then (nw + 1, 0, st1)
          else (nw, lo + loss_function C (training st) (params st) b, st1)) =
         Inr (nw', lo', st')"
    by blast
  show ?case
  proof (cases "(int i + 1) mod print_every cfg = 0")
    case True
    with rec have "train_batches cfg C w (Suc i) bs (nw + 1, 0, st1) = Inr (nw', lo', st')"
      by simp
    from Cons.IH [OF this] ev True show ?thesis by simp
  next
    case False
    with rec have "train_batches cfg C w (Suc i) bs
        (nw, lo + loss_function C (training st) (params st) b, st1) = Inr (nw', lo', st')"
      by simp
    from Cons.IH [OF this] ev False show ?thesis by simp
  qed
qed

lemma train_batches_forwards:
  "train_batches cfg C w i bs (nw, lo, st) = Inr (nw', lo', st') \<Longrightarrow>
   training st' = training st \<and> grad_enabled st' = grad_enabled st \<and>
   forwards (events st') =
     forwards (events st) @ replicate (length bs) (Forward (training st) (grad_enabled st))"
proof (induction bs arbitrary: i nw lo st)
  case Nil
  then show ?case by simp
next
  case (Cons b bs)
  from train_batches_step [OF Cons.prems] obtain st1 where
    md: "training st1 = training st" "grad_enabled st1 = grad_enabled st"
    and ev: "events st1 = events st @ Forward (training st) (grad_enabled st) #
         (if (int i + 1) mod print_every cfg = 0
          then (if use_tpu cfg then []
                else [AddScalar ''train/bpd''
                        (fdiv (lo + loss_function C (training st) (params st) b)
                           (train_deno cfg C)) (w + nw)]) @
               [PrintFlush i (fdiv (lo + loss_function C (training st) (params st) b)
                           (train_deno cfg C))]
          else [])"
    and rec: "train_batches cfg C w (Suc i) bs
         (if (int i + 1) mod print_every cfg = 0 then (nw + 1, 0, st1)
          else (nw, lo + loss_function C (training st) (params st) b, st1)) =
         Inr (nw', lo', st')"
    by blast
  show ?case
  proof (cases "(int i + 1) mod print_every cfg = 0")
    case True
    with rec have "train_batches cfg C w (Suc i) bs (nw + 1, 0, st1) = Inr (nw', lo', st')"
      by simp
    from Cons.IH [OF this] ev md True show ?thesis by simp
  next
    case False
    with rec have "train_batches cfg C w (Suc i) bs
        (nw, lo + loss_function C (training st) (params st) b, st1) = Inr (nw', lo', st')"
      by simp
    from Cons.IH [OF this] ev md False show ?thesis by simp
  qed
qed

lemma train_batches_params:
  "train_batches cfg C w i bs (nw, lo, st) = Inr (nw', lo', st') \<Longrightarrow>
   (opt st', params st') = apply_steps cfg C bs (opt st, params st)"
proof (induction bs arbitrary: i nw lo st)
  case Nil
  then show ?case by simp
next
  case (Cons b bs)
  from train_batches_step [OF Cons.prems] obtain st1 where
    sp: "(opt st1, params st1) = apply_steps cfg C [b] (opt st, params st)"
    and rec: "train_batches cfg C w (Suc i) bs
         (if (int i + 1) mod print_every cfg = 0 then (nw + 1, 0, st1)
          else (nw, lo + loss_function C (training st) (params st) b, st1)) =
         Inr (nw', lo', st')"
    by blast
  have "(opt st', params st') = apply_steps cfg C bs (opt st1, params st1)"
  proof (cases "(int i + 1) mod print_every cfg = 0")
    case True
    with rec have "train_batches cfg C w (Suc i) bs (nw + 1, 0, st1) = Inr (nw', lo', st')"
      by simp
    from Cons.IH [OF this] show ?thesis .
  next
    case False
    with rec have "train_batches cfg C w (Suc i) bs
        (nw, lo + loss_function C (training st) (params st) b, st1) = Inr (nw', lo', st')"
      by simp
    from Cons.IH [OF this] show ?thesis .
  qed
  with sp show ?case by simp
qed

lemma flush_cond_nat:
  "0 < p \<Longrightarrow> ((int i + 1) mod p = 0) = (Suc i mod nat p = 0)"
proof -
  assume "0 < p"
  then have "int (Suc i mod nat p) = (int i + 1) mod p"
    by (simp add: zmod_int add.commute)
  then show ?thesis
    by (metis of_nat_eq_0_iff)
qed

lemma train_batches_count:
  "train_batches cfg C w i bs (nw, lo, st) = Inr (nw', lo', st') \<Longrightarrow>
   0 < print_every cfg \<Longrightarrow>
   nw' + i div nat (print_every cfg) = nw + (i + length bs) div nat (print_every cfg)"
proof (induction bs arbitrary: i nw lo st)
  case Nil
  then show ?case by simp
next
  case (Cons b bs)
  from train_batches_step [OF Cons.prems(1)] obtain st1 where
    rec: "train_batches cfg C w (Suc i) bs
         (if (int i + 1) mod print_every cfg = 0 then (nw + 1, 0, st1)
          else (nw, lo + loss_function C (training st) (params st) b, st1)) =
         Inr (nw', lo', st')"
    by blast
  show ?case
  proof (cases "(int i + 1) mod print_every cfg = 0")
    case True
    with rec have "train_batches cfg C w (Suc i) bs (nw + 1, 0, st1) = Inr (nw', lo', st')"
      by simp
    from Cons.IH [OF this Cons.prems(2)] True Cons.prems(2) show ?thesis
      by (simp add: flush_cond_nat div_Suc)
  next
    case False
    with rec have "train_batches cfg C w (Suc i) bs
        (nw, lo + loss_function C (training st) (params st) b, st1) = Inr (nw', lo', st')"
      by simp
    from Cons.IH [OF this Cons.prems(2)] False Cons.prems(2) show ?thesis
      by (simp add: flush_cond_nat div_Suc)
  qed
qed

lemma residual_flush:
  "Suc i mod P = 0 \<Longrightarrow> (Suc i + m) mod P \<le> m"
  by (metis add.commute add.right_neutral mod_add_right_eq mod_less_eq_dividend)

lemma residual_keep:
  assumes "Suc i mod P \<noteq> 0"
  shows "(Suc i + m) mod P \<noteq> m"
proof
  assume eq: "(Suc i + m) mod P = m"
  have "P dvd (Suc i + m) - (Suc i + m) mod P"
    by (rule dvd_minus_mod)
  with eq have "P dvd Suc i" by simp
  with assms show False by (simp add: dvd_eq_mod_eq_0)
qed

lemma train_batches_residual:
  "train_batches cfg C w i bs (nw, lo, st) = Inr (nw', lo', st') \<Longrightarrow>
   0 < print_every cfg \<Longrightarrow> training st \<Longrightarrow>
   lo' = (if (i + length bs) mod nat (print_every cfg) < length bs then 0 else lo) +
         sum_list (drop (length bs - (i + length bs) mod nat (print_every cfg))
                     (pass_losses cfg C bs (opt st, params st)))"
proof (induction bs arbitrary: i nw lo st)
  case Nil
  then show ?case by simp
next
  case (Cons b bs)
  from train_batches_step [OF Cons.prems(1)] obtain st1 where
    sp: "(opt st1, params st1) = apply_steps cfg C [b] (opt st, params st)"
    and md: "training st1 = training st"
    and rec: "train_batches cfg C w (Suc i) bs
         (if (int i + 1) mod print_every cfg = 0 then (nw + 1, 0, st1)
          else (nw, lo + loss_function C (training st) (params st) b, st1)) =
         Inr (nw', lo', st')"
    by blast
  have tr: "training st1" using md Cons.prems(3) by simp
  have pl: "pass_losses cfg C (b # bs) (opt st, params st) =
      loss_function C True (params st) b # pass_losses cfg C bs (opt st1, params st1)"
    unfolding sp by simp
  show ?case
  proof (cases "(int i + 1) mod print_every cfg = 0")
    case True
    with rec have "train_batches cfg C w (Suc i) bs (nw + 1, 0, st1) = Inr (nw', lo', st')"
      by simp
    from Cons.IH [OF this Cons.prems(2) tr]
    have ih: "lo' = sum_list (drop (length bs - (Suc i + length bs) mod nat (print_every cfg))
                     (pass_losses cfg C bs (opt st1, params st1)))"
      by simp
    from True Cons.prems(2) have "Suc i mod nat (print_every cfg) = 0"
      by (simp add: flush_cond_nat)
    then have le: "(Suc i + length bs) mod nat (print_every cfg) \<le> length bs"
      by (rule residual_flush)
    with ih show ?thesis
      unfolding pl by (simp add: Suc_diff_le)
  next
    case False
    with rec have "train_batches cfg C w (Suc i) bs
        (nw, lo + loss_function C (training st) (params st) b, st1) = Inr (nw', lo', st')"
      by simp
    from Cons.IH [OF this Cons.prems(2) tr]
    have ih: "lo' = (if (Suc i + length bs) mod nat (print_every cfg) < length bs then 0
                     else lo + loss_function C (training st) (params st) b) +
         sum_list (drop (length bs - (Suc i + length bs) mod nat (print_every cfg))
                     (pass_losses cfg C bs (opt st1, params st1)))" .
    from False Cons.prems(2) have "Suc i mod nat (print_every cfg) \<noteq> 0"
      by (simp add: flush_cond_nat)
    then have ne: "(Suc i + length bs) mod nat (print_every cfg) \<noteq> length bs"
      by (rule residual_keep)
    show ?thesis
    proof (cases "(Suc i + length bs) mod nat (print_every cfg) < length bs")
      case True
      with ih show ?thesis
        unfolding pl by (simp add: Suc_diff_le)
    next
      case False
      with ne have "length bs < (Suc i + length bs) mod nat (print_every cfg)" by simp
      with ih Cons.prems(3) show ?thesis
        unfolding pl by simp
    qed
  qed
qed

lemma test_batches_eq:
  "test_batches C bs (lo, st) =
     (lo + sum_list (map (loss_function C (training st) (params st)) bs),
      emit (replicate (length bs) (Forward (training st) (grad_enabled st))) st)"
proof (induction bs arbitrary: lo st)
  case Nil
  then show ?case by simp
next
  case (Cons b bs)
  show ?case
    by (simp add: Let_def Cons.IH add.assoc replicate_app_Cons_same)
qed

lemma test_loop_eq:
  "test_loop cfg C dl w e st =
     (if dl = [] then Inl UnboundLocalError
      else if save_interval cfg = 0 then Inl ZeroDivisionError
      else Inr (sum_list (map (loss_function C False (params st)) dl),
        emit (replicate (length dl) (Forward False (grad_enabled st)) @
              [AddScalar ''test/bpd''
                 (fdiv (sum_list (map (loss_function C False (params st)) dl))
                    (test_deno cfg C (length dl - 1))) w,
               PrintValidation e
                 (fdiv (sum_list (map (loss_function C False (params st)) dl))
                    (test_deno cfg C (length dl - 1)))] @
              (if (int e + 1) mod save_interval cfg = 0
               then [TorchSave (checkpoint_path (model_name C) e) (params st),
                     SaveImage (image_path (model_name C) e) 5 0]
               else []))
          (st\<lparr>training := False\<rparr>)))"
  by (simp add: test_loop_def test_batches_eq Let_def)

lemma train_loop_Inr:
  "train_loop cfg C dl w st = Inr r \<Longrightarrow>
   dl \<noteq> [] \<and> train_batches cfg C w 0 dl (0, 0, st\<lparr>training := True\<rparr>) = Inr r"
  by (auto simp: train_loop_def split: sum.splits if_splits)

lemma epoch_body_Inr:
  assumes "epoch_body cfg C trl tel e (w, st) = Inr (w', st')"
  shows "\<exists>nw lo st1.
     train_loop cfg C trl w st = Inr (nw, lo, st1) \<and>
     tel \<noteq> [] \<and> save_interval cfg \<noteq> 0 \<and>
     w' = Suc (if use_tpu cfg then w else w + nw) \<and>
     params st' = params st1 \<and> opt st' = scheduler_step C e (opt st1) \<and>
     grad_enabled st' = grad_enabled st1 \<and>
     events st' = events st1 @
       PrintFinished e (if use_tpu cfg then None else Some lo) #
       replicate (length tel) (Forward False (grad_enabled st1)) @
       [AddScalar ''test/bpd''
          (fdiv (sum_list (map (loss_function C False (params st1)) tel))
             (test_deno cfg C (length tel - 1)))
          (if use_tpu cfg then w else w + nw),
        PrintValidation e
          (fdiv (sum_list (map (loss_function C False (params st1)) tel))
             (test_deno cfg C (length tel - 1)))] @
       (if (int e + 1) mod save_interval cfg = 0
        then [TorchSave (checkpoint_path (model_name C) e) (params st1),
              SaveImage (image_path (model_name C) e) 5 0]
        else [])"
proof (cases "train_loop cfg C trl w st")
  case (Inl err)
  with assms show ?thesis by (simp add: epoch_body_def)
next
  case (Inr r)
  obtain nw lo st1 where r: "r = (nw, lo, st1)" by (cases r)
  show ?thesis
  proof (cases "use_tpu cfg")
    case True
    with assms Inr r show ?thesis
      by (auto simp: epoch_body_def test_loop_eq Let_def split: if_splits)
  next
    case False
    with assms Inr r show ?thesis
      by (auto simp: epoch_body_def test_loop_eq Let_def split: if_splits)
  qed
qed

lemma step_of_tag_step: "map step_of xs = map snd (map tag_step xs)"
  by (induction xs) auto

lemma replicate_Forward_quiet [simp]:
  "scalars (replicate n (Forward m g)) = []"
  "flush_count (replicate n (Forward m g)) = 0"
  "artifacts (replicate n (Forward m g)) = []"
  "finished (replicate n (Forward m g)) = []"
  by (induction n) simp_all

lemma upt_shift: "[w..<w + Suc n] = w # [Suc w..<Suc w + n]"
  by (subst upt_rec) simp

lemma epoch_body_obs:
  assumes "epoch_body cfg C trl tel e (w, st) = Inr (w', st')"
  shows "\<exists>nw.
     w' = Suc (if use_tpu cfg then w else w + nw) \<and>
     flush_count (events st') = flush_count (events st) + nw \<and>
     map tag_step (scalars (events st')) =
       map tag_step (scalars (events st)) @
       (if use_tpu cfg then [] else map (Pair ''train/bpd'') [w..<w + nw]) @
       [(''test/bpd'', if use_tpu cfg then w else w + nw)] \<and>
     artifacts (events st') =
       artifacts (events st) @
       (if (int e + 1) mod save_interval cfg = 0
        then [Checkpoint (checkpoint_path (model_name C) e),
              ImageGrid (image_path (model_name C) e) 5 0]
        else []) \<and>
     (0 < print_every cfg \<longrightarrow> nw = length trl div nat (print_every cfg))"
proof -
  from epoch_body_Inr [OF assms] obtain nw lo st1 where
    tl: "train_loop cfg C trl w st = Inr (nw, lo, st1)"
    and w': "w' = Suc (if use_tpu cfg then w else w + nw)"
    and ev: "events st' = events st1 @
       PrintFinished e (if use_tpu cfg then None else Some lo) #
       replicate (length tel) (Forward False (grad_enabled st1)) @
       [AddScalar ''test/bpd''
          (fdiv (sum_list (map (loss_function C False (params st1)) tel))
             (test_deno cfg C (length tel - 1)))
          (if use_tpu cfg then w else w + nw),
        PrintValidation e
          (fdiv (sum_list (map (loss_function C False (params st1)) tel))
             (test_deno cfg C (length tel - 1)))] @
       (if (int e + 1) mod save_interval cfg = 0
        then [TorchSave (checkpoint_path (model_name C) e) (params st1),
              SaveImage (image_path (model_name C) e) 5 0]
        else [])"
    by blast
  from train_loop_Inr [OF tl] have
    tb: "train_batches cfg C w 0 trl (0, 0, st\<lparr>training := True\<rparr>) = Inr (nw, lo, st1)"
    by simp
  from train_batches_flushes [OF tb] ev
  have "flush_count (events st') = flush_count (events st) + nw"
    by simp
  moreover from train_batches_scalars [OF tb] ev
  have "map tag_step (scalars (events st')) =
       map tag_step (scalars (events st)) @
       (if use_tpu cfg then [] else map (Pair ''train/bpd'') [w..<w + nw]) @
       [(''test/bpd'', if use_tpu cfg then w else w + nw)]"
    by simp
  moreover from train_batches_quiet [OF tb] ev
  have "artifacts (events st') =
       artifacts (events st) @
       (if (int e + 1) mod save_interval cfg = 0
        then [Checkpoint (checkpoint_path (model_name C) e),
              ImageGrid (image_path (model_name C) e) 5 0]
        else [])"
    by simp
  moreover have "0 < print_every cfg \<longrightarrow> nw = length trl div nat (print_every cfg)"
    using train_batches_count [OF tb] by simp
  ultimately show ?thesis using w' by blast
qed

lemma epochs_Cons_Inr:
  assumes "epochs cfg C trl tel (e # es) (w, st) = Inr r"
  shows "\<exists>w1 st1. epoch_body cfg C trl tel e (w, st) = Inr (w1, st1) \<and>
           epochs cfg C trl tel es (w1, st1) = Inr r"
  using assms by (cases "epoch_body cfg C trl tel e (w, st)") auto

lemma epochs_writes:
  "epochs cfg C trl tel es (w, st) = Inr (w', st') \<Longrightarrow>
   w' + (if use_tpu cfg then 0 else flush_count (events st)) =
     w + length es + (if use_tpu cfg then 0 else flush_count (events st')) \<and>
   map step_of (scalars (events st')) = map step_of (scalars (events st)) @ [w..<w'] \<and>
   w \<le> w'"
proof (induction es arbitrary: w st)
  case Nil
  then show ?case by simp
next
  case (Cons e es)
  from epochs_Cons_Inr [OF Cons.prems] obtain w1 st1 where
    eb: "epoch_body cfg C trl tel e (w, st) = Inr (w1, st1)"
    and rec: "epochs cfg C trl tel es (w1, st1) = Inr (w', st')"
    by blast
  from epoch_body_obs [OF eb] obtain nw where
    w1: "w1 = Suc (if use_tpu cfg then w else w + nw)"
    and fl: "flush_count (events st1) = flush_count (events st) + nw"
    and sc: "map tag_step (scalars (events st1)) =
       map tag_step (scalars (events st)) @
       (if use_tpu cfg then [] else map (Pair ''train/bpd'') [w..<w + nw]) @
       [(''test/bpd'', if use_tpu cfg then w else w + nw)]"
    by blast
  have st: "map step_of (scalars (events st1)) = map step_of (scalars (events st)) @ [w..<w1]"
    unfolding step_of_tag_step sc w1 by (simp add: comp_def)
  from Cons.IH [OF rec] have
    ih1: "w' + (if use_tpu cfg then 0 else flush_count (events st1)) =
       w1 + length es + (if use_tpu cfg then 0 else flush_count (events st'))"
    and ih2: "map step_of (scalars (events st')) = map step_of (scalars (events st1)) @ [w1..<w']"
    and ih3: "w1 \<le> w'"
    by simp_all
  have le: "w \<le> w1" using w1 by simp
  have "[w..<w1] @ [w1..<w'] = [w..<w']"
    using le ih3 by (metis le_Suc_ex upt_add_eq_append)
  with ih2 st have "map step_of (scalars (events st')) = map step_of (scalars (events st)) @ [w..<w']"
    by simp
  moreover from ih1 w1 fl have "w' + (if use_tpu cfg then 0 else flush_count (events st)) =
     w + length (e # es) + (if use_tpu cfg then 0 else flush_count (events st'))"
    by (simp split: if_splits)
  ultimately show ?case using le ih3 by simp
qed

lemma epochs_flushes:
  "epochs cfg C trl tel es (w, st) = Inr (w', st') \<Longrightarrow> 0 < print_every cfg \<Longrightarrow>
   flush_count (events st') =
     flush_count (events st) + length es * (length trl div nat (print_every cfg))"
proof (induction es arbitrary: w st)
  case Nil
  then show ?case by simp
next
  case (Cons e es)
  from epochs_Cons_Inr [OF Cons.prems(1)] obtain w1 st1 where
    eb: "epoch_body cfg C trl tel e (w, st) = Inr (w1, st1)"
    and rec: "epochs cfg C trl tel es (w1, st1) = Inr (w', st')"
    by blast
  from epoch_body_obs [OF eb] Cons.prems(2)
  have "flush_count (events st1) =
      flush_count (events st) + length trl div nat (print_every cfg)"
    by auto
  with Cons.IH [OF rec Cons.prems(2)] show ?case by simp
qed

lemma epochs_tpu_scalars:
  "epochs cfg C trl tel es (w, st) = Inr (w', st') \<Longrightarrow> use_tpu cfg \<Longrightarrow>
   map tag_step (scalars (events st')) =
     map tag_step (scalars (events st)) @ map (Pair ''test/bpd'') [w..<w + length es]"
proof (induction es arbitrary: w st)
  case Nil
  then show ?case by simp
next
  case (Cons e es)
  from epochs_Cons_Inr [OF Cons.prems(1)] obtain w1 st1 where
    eb: "epoch_body cfg C trl tel e (w, st) = Inr (w1, st1)"
    and rec: "epochs cfg C trl tel es (w1, st1) = Inr (w', st')"
    by blast
  from epoch_body_obs [OF eb] Cons.prems(2)
  have w1: "w1 = Suc w"
    and sc: "map tag_step (scalars (events st1)) =
       map tag_step (scalars (events st)) @ [(''test/bpd'', w)]"
    by auto
  have "[w..<w + length (e # es)] = w # [Suc w..<Suc w + length es]"
    using upt_shift [of w "length es"] by simp
  with Cons.IH [OF rec Cons.prems(2)] sc show ?case
    unfolding w1 by simp
qed

lemma epochs_artifacts:
  "epochs cfg C trl tel es (w, st) = Inr (w', st') \<Longrightarrow>
   artifacts (events st') =
     artifacts (events st) @
     concat (map (\<lambda>e. if (int e + 1) mod save_interval cfg = 0
                       then [Checkpoint (checkpoint_path (model_name C) e),
                             ImageGrid (image_path (model_name C) e) 5 0]
                       else []) es)"
proof (induction es arbitrary: w st)
  case Nil
  then show ?case by simp
next
  case (Cons e es)
  from epochs_Cons_Inr [OF Cons.prems] obtain w1 st1 where
    eb: "epoch_body cfg C trl tel e (w, st) = Inr (w1, st1)"
    and rec: "epochs cfg C trl tel es (w1, st1) = Inr (w', st')"
    by blast
  from epoch_body_obs [OF eb]
  have "artifacts (events st1) =
       artifacts (events st) @
       (if (int e + 1) mod save_interval cfg = 0
        then [Checkpoint (checkpoint_path (model_name C) e),
              ImageGrid (image_path (model_name C) e) 5 0]
        else [])"
    by blast
  with Cons.IH [OF rec] show ?case by simp
qed

lemma train_batches_total:
  "print_every cfg \<noteq> 0 \<Longrightarrow> \<exists>r. train_batches cfg C w i bs acc = Inr r"
proof (induction bs arbitrary: i acc)
  case Nil
  then show ?case by (cases acc) simp
next
  case (Cons b bs)
  obtain nw lo st where acc: "acc = (nw, lo, st)" by (metis prod_cases3)
  from Cons show ?case
    unfolding acc by (simp add: Let_def split_beta)
qed

lemma train_loop_total:
  "print_every cfg \<noteq> 0 \<Longrightarrow> dl \<noteq> [] \<Longrightarrow> \<exists>r. train_loop cfg C dl w st = Inr r"
  using train_batches_total [of cfg C w 0 dl "(0, 0, st\<lparr>training := True\<rparr>)"]
  by (auto simp: train_loop_def)

lemma epoch_body_total:
  assumes "print_every cfg \<noteq> 0" "save_interval cfg \<noteq> 0" "trl \<noteq> []" "tel \<noteq> []"
  shows "\<exists>r. epoch_body cfg C trl tel e ws = Inr r"
proof -
  obtain w st where ws: "ws = (w, st)" by (cases ws)
  from train_loop_total [OF assms(1,3)] obtain nw lo st1 where
    "train_loop cfg C trl w st = Inr (nw, lo, st1)"
    by (metis prod_cases3)
  with assms(2,4) show ?thesis
    unfolding ws by (simp add: epoch_body_def test_loop_eq Let_def)
qed

lemma epochs_total:
  assumes "print_every cfg \<noteq> 0" "save_interval cfg \<noteq> 0" "trl \<noteq> []" "tel \<noteq> []"
  shows "\<exists>r. epochs cfg C trl tel es ws = Inr r"
proof (induction es arbitrary: ws)
  case Nil
  then show ?case by simp
next
  case (Cons e es)
  from epoch_body_total [OF assms] obtain r where
    "epoch_body cfg C trl tel e ws = Inr r" by blast
  with Cons show ?case by simp
qed

lemma train_total:
  assumes "print_every cfg \<noteq> 0" "save_interval cfg \<noteq> 0" "trl \<noteq> []" "tel \<noteq> []"
  shows "\<exists>w st. train cfg C trl tel p ob = Inr (w, st)"
  using epochs_total [OF assms] unfolding train_def by (metis surj_pair)

lemma initial_state_obs [simp]:
  "events (initial_state p ob) = []" "params (initial_state p ob) = p"
  "opt (initial_state p ob) = ob" "training (initial_state p ob)"
  "grad_enabled (initial_state p ob)"
  by (simp_all add: initial_state_def)

lemma length_pass_losses: "length (pass_losses cfg C bs s) = length bs"
proof (induction bs arbitrary: s)
  case Nil
  then show ?case by simp
next
  case (Cons b bs)
  then show ?case by (cases s) simp
qed

lemma forwards_replicate [simp]:
  "forwards (replicate n (Forward m g)) = replicate n (Forward m g)"
  by (induction n) simp_all

text \<open>
  The set-up of the loaders in multi-replica mode: the sampler given to the
  test loader is the one built over the training data set, the same as the
  training loader's, and the loader it is given to is asked of the test data
  set. What such a loader then yields is decided by \<open>get_dataloader\<close>, which
  is not part of \<open>main.py\<close>.
\<close>

lemma test_loader_setup:
  assumes "use_tpu cfg"
  shows "loader_sampler (snd (make_loaders cfg tbs dataset_train dataset_test world ordinal)) =
           Some \<lparr>sampled = dataset_train, num_replicas = world, rank = ordinal,
                  sampler_shuffle = True\<rparr> \<and>
         loader_sampler (snd (make_loaders cfg tbs dataset_train dataset_test world ordinal)) =
           loader_sampler (fst (make_loaders cfg tbs dataset_train dataset_test world ordinal)) \<and>
         provider (snd (make_loaders cfg tbs dataset_train dataset_test world ordinal)) =
           dataset_test"
  using assms by (simp add: make_loaders_def make_samplers_def)

text \<open>
  The denominator of the training flush depends on the product of
  \<open>print_every\<close> and \<open>batch_size\<close> only: halving the one and doubling
  the other leaves it unchanged.
\<close>

lemma train_deno_scale:
  "train_deno (cfg\<lparr>print_every := 2 * k, batch_size := b\<rparr>) C =
   train_deno (cfg\<lparr>print_every := k, batch_size := 2 * b\<rparr>) C"
  by (simp add: train_deno_def mult.assoc mult.left_commute)

text \<open>Unfolding the loop on a concrete input.\<close>

lemmas run_eval =
  train_def run_config_def counting_collab_def initial_state_def epoch_body_def
  train_loop_def test_loop_def emit_def fdiv_def train_deno_def test_deno_def
  np_prod_def wrap64_def
  checkpoint_path_def image_path_def str_nat.simps upt_rec Let_def scalar_values_def

text \<open>
  The wrap-around at work: with input shape \<open>(2 ^ 32, 2 ^ 32)\<close> the 64-bit
  product of the dimensions is 0, and the evaluation pass logs a non-finite
  value.
\<close>

lemma wrapped_shape_denominator:
  "scalar_values ''test/bpd''
     (trace_of (test_loop (run_config False 2 2 1 1)
        (counting_collab [4294967296, 4294967296])
        [[1, 1], [1, 1]] 0 0 (initial_state 0 0))) = [NonFinite]"
  by (simp add: run_eval)

section \<open>The properties of the specification\<close>

subsection \<open>C1: the logged test metric\<close>

text \<open>
  C1 says that the test bits-per-dimension logged for an epoch is the summed
  test loss over (number of test examples) * (product of the input dimensions)
  * ln 2. The evaluation pass divides by \<open>batch_idx * config.batch_size\<close>
  instead, where \<open>batch_idx\<close> is the index of the last batch, one less than
  the number of batches. On two test batches of two examples each, with losses
  adding up to 4, input shape (1, 1, 3) and batch size 2, the run logs
  4 / (1 * 2 * 3 * ln 2), the formula gives 4 / (4 * 3 * ln 2), and the two
  differ.
\<close>

theorem test_bpd_denominator:
  "scalar_values ''test/bpd''
     (trace_of (train (run_config False 2 2 1 1) (counting_collab [1, 1, 3])
        [[1, 1], [1, 1]] [[1, 1], [1, 1]] 0 0)) = [Finite (4 / (6 * ln 2))] \<and>
   spec_bpd 4 4 [1, 1, 3] = Finite (4 / (12 * ln 2)) \<and>
   Finite (4 / (6 * ln 2)) \<noteq> spec_bpd 4 4 [1, 1, 3]"
  by (simp add: run_eval spec_bpd_def)

subsection \<open>C2: a zero denominator\<close>

text \<open>
  C2 as amended: the program does not validate the denominator
  (number of test examples) * (product of the input dimensions) * ln 2 and
  signals no configuration error when it is zero. With an empty test set the
  evaluation pass aborts with an unbound-variable error where it reads
  \<open>batch_idx\<close>, which comes before the division. With a non-empty test set, an
  input shape whose dimensions have product zero and a non-zero save interval,
  it carries the division out, returns normally, and the one scalar it has
  added to the log is a non-finite \<open>test/bpd\<close> at the current write index.
\<close>

theorem no_denominator_guard:
  "test_loop cfg C [] w e st = Inl UnboundLocalError \<and>
   (dl \<noteq> [] \<and> save_interval cfg \<noteq> 0 \<and> prod_list (input_shape C) = 0 \<longrightarrow>
      (\<exists>lo st'. test_loop cfg C dl w e st = Inr (lo, st') \<and>
         scalars (events st') = scalars (events st) @ [(''test/bpd'', NonFinite, w)]))"
  by (simp add: test_loop_eq fdiv_def test_deno_def np_prod_def wrap64_def)

theorem no_denominator_guard_witness:
  "scalars (trace_of (test_loop (run_config False 2 2 1 1) (counting_collab [1, 0, 3])
      [[1, 1], [1, 1]] 7 0 (initial_state 0 0))) = [(''test/bpd'', NonFinite, 7)]"
proof -
  have "[[1, 1], [1, 1]] \<noteq> ([] :: real list list) \<and>
      save_interval (run_config False 2 2 1 1) \<noteq> 0 \<and>
      prod_list (input_shape (counting_collab [1, 0, 3])) = 0"
    by (simp add: run_config_def counting_collab_def)
  with no_denominator_guard [of "run_config False 2 2 1 1" "counting_collab [1, 0, 3]" 7 0
      "initial_state 0 0" "[[1, 1], [1, 1]]"]
  obtain lo st' where
    "test_loop (run_config False 2 2 1 1) (counting_collab [1, 0, 3])
      [[1, 1], [1, 1]] 7 0 (initial_state 0 0) = Inr (lo, st')"
    "scalars (events st') = scalars (events (initial_state 0 0 :: (nat, nat) state)) @
       [(''test/bpd'', NonFinite, 7)]"
    by blast
  then show ?thesis by simp
qed

text \<open>
  Against C2 as stated: an empty test set ends in the unbound-variable error,
  not in a configuration error, and with an input shape that has a zero
  dimension (so that the denominator of the formula is zero) two test batches
  are evaluated without any error and a non-finite value is logged.
\<close>

theorem no_denominator_guard_counterexample:
  "test_loop (run_config False 2 2 1 1) (counting_collab [1, 1, 3]) [] 0 0
     (initial_state 0 0) = Inl UnboundLocalError \<and>
   scalar_values ''test/bpd''
     (trace_of (test_loop (run_config False 2 2 1 1) (counting_collab [1, 0, 3])
        [[1, 1], [1, 1]] 0 0 (initial_state 0 0))) = [NonFinite]"
  by (simp add: run_eval)

subsection \<open>C3: how the write index advances\<close>

text \<open>
  C3 as amended: in a run that completes, the write index ends at the number
  of epochs, plus, in single-device mode only, the number of training flushes;
  in multi-replica mode the flushes do not advance it. The steps under which
  scalars were logged are 0, 1, ..., up to the final index, in this order, so
  the index never decreases and each entry takes the next value. With a
  positive \<open>print_every\<close> a training pass flushes once every \<open>print_every\<close>
  batches, so the run has (number of epochs) * (number of training batches div
  \<open>print_every\<close>) flushes.
\<close>

theorem write_index_advance:
  assumes "train cfg C trl tel p ob = Inr (w, st')"
  shows "w = (if use_tpu cfg then 0 else flush_count (events st')) + nat (max_epochs cfg) \<and>
         map step_of (scalars (events st')) = [0..<w] \<and>
         (0 < print_every cfg \<longrightarrow>
            flush_count (events st') =
              nat (max_epochs cfg) * (length trl div nat (print_every cfg)))"
proof -
  from assms have run:
    "epochs cfg C trl tel [0..<nat (max_epochs cfg)] (0, initial_state p ob) = Inr (w, st')"
    by (simp add: train_def)
  from epochs_writes [OF run] epochs_flushes [OF run] show ?thesis
    by (auto split: if_splits)
qed

theorem write_index_advance_witness:
  "writes_of (train (run_config False 2 2 1 2) (counting_collab [1, 1, 3])
      [[1, 1], [1, 1], [1, 1], [1, 1]] [[1, 1], [1, 1]] 0 0) = Some 6 \<and>
   flush_count (trace_of (train (run_config False 2 2 1 2) (counting_collab [1, 1, 3])
      [[1, 1], [1, 1], [1, 1], [1, 1]] [[1, 1], [1, 1]] 0 0)) = 4 \<and>
   map step_of (scalars (trace_of (train (run_config False 2 2 1 2)
      (counting_collab [1, 1, 3])
      [[1, 1], [1, 1], [1, 1], [1, 1]] [[1, 1], [1, 1]] 0 0))) = [0, 1, 2, 3, 4, 5]"
proof -
  obtain w st where run: "train (run_config False 2 2 1 2) (counting_collab [1, 1, 3])
      [[1, 1], [1, 1], [1, 1], [1, 1]] [[1, 1], [1, 1]] 0 0 = Inr (w, st)"
    using train_total [of "run_config False 2 2 1 2" "[[1, 1], [1, 1], [1, 1], [1, 1]]"
        "[[1, 1], [1, 1]]" "counting_collab [1, 1, 3]" 0 0]
    by (auto simp: run_config_def)
  from write_index_advance [OF run] have "w = 6" "flush_count (events st) = 4"
    "map step_of (scalars (events st)) = [0..<w]"
    by (simp_all add: run_config_def)
  then show ?thesis
    unfolding run by (simp add: upt_rec)
qed

text \<open>
  Against C3 as stated: a multi-replica run of one epoch over two training
  batches with \<open>print_every = 1\<close> flushes twice and ends with write index 1,
  not 3.
\<close>

theorem write_index_tpu_counterexample:
  "flush_count (trace_of (train (run_config True 2 1 1 1) (counting_collab [1, 1, 3])
      [[1, 1], [1, 1]] [[1, 1], [1, 1]] 0 0)) = 2 \<and>
   writes_of (train (run_config True 2 1 1 1) (counting_collab [1, 1, 3])
      [[1, 1], [1, 1]] [[1, 1], [1, 1]] 0 0) = Some 1"
  by (simp add: run_eval)

subsection \<open>C4: checkpoint and sample cadence\<close>

text \<open>
  C4: in a run that completes, the files written are, epoch by epoch in
  \<open>[0, max_epochs)\<close>, exactly a checkpoint \<open>models/{model_name}_{e}.pth\<close>
  followed by an image grid \<open>images/{model_name}_{e}.png\<close> with five images
  per row and padding 0 for every epoch \<open>e\<close> with
  \<open>(e + 1) mod save_interval = 0\<close>, and nothing for the other epochs.
\<close>

theorem checkpoint_cadence:
  assumes "train cfg C trl tel p ob = Inr (w, st')"
  shows "artifacts (events st') =
     concat (map (\<lambda>e. if (int e + 1) mod save_interval cfg = 0
                       then [Checkpoint (''models/'' @ model_name C @ ''_'' @ str_nat e @ ''.pth''),
                             ImageGrid (''images/'' @ model_name C @ ''_'' @ str_nat e @ ''.png'') 5 0]
                       else [])
               [0..<nat (max_epochs cfg)])"
proof -
  from assms have run:
    "epochs cfg C trl tel [0..<nat (max_epochs cfg)] (0, initial_state p ob) = Inr (w, st')"
    by (simp add: train_def)
  from epochs_artifacts [OF run] show ?thesis
    unfolding checkpoint_path_def image_path_def by simp
qed

theorem checkpoint_cadence_witness:
  "artifacts (trace_of (train (run_config False 2 1 2 4) (counting_collab [1, 1, 3])
      [[1, 1]] [[1, 1], [1, 1]] 0 0)) =
     [Checkpoint ''models/m_1.pth'', ImageGrid ''images/m_1.png'' 5 0,
      Checkpoint ''models/m_3.pth'', ImageGrid ''images/m_3.png'' 5 0]"
proof -
  obtain w st where run: "train (run_config False 2 1 2 4) (counting_collab [1, 1, 3])
      [[1, 1]] [[1, 1], [1, 1]] 0 0 = Inr (w, st)"
    using train_total [of "run_config False 2 1 2 4" "[[1, 1]]"
        "[[1, 1], [1, 1]]" "counting_collab [1, 1, 3]" 0 0]
    by (auto simp: run_config_def)
  from checkpoint_cadence [OF run] show ?thesis
    unfolding run
    by (simp add: run_config_def counting_collab_def upt_rec str_nat.simps)
qed

subsection \<open>C5: what an evaluation pass changes\<close>

text \<open>
  C5 as amended: an evaluation pass runs one forward pass per test batch with
  the model in evaluation mode and with torch's gradient mode as it found it
  (it does not disable gradient computation), and leaves the model parameters,
  the optimizer state and the gradient mode unchanged. At the end of an epoch
  the parameters are those that the optimizer steps of the training pass,
  applied batch by batch, produce from the parameters at its start.
\<close>

theorem evaluation_frame:
  "(test_loop cfg C dl w e st = Inr (lo, st') \<longrightarrow>
      params st' = params st \<and> opt st' = opt st \<and>
      grad_enabled st' = grad_enabled st \<and> training st' = False \<and>
      forwards (events st') =
        forwards (events st) @ replicate (length dl) (Forward False (grad_enabled st))) \<and>
   (epoch_body cfg C trl tel e (w0, s0) = Inr (w1, s1) \<longrightarrow>
      params s1 = snd (apply_steps cfg C trl (opt s0, params s0)))"
proof (intro conjI impI)
  assume tl: "test_loop cfg C dl w e st = Inr (lo, st')"
  from tl show "params st' = params st" "opt st' = opt st"
    "grad_enabled st' = grad_enabled st" "training st' = False"
    "forwards (events st') =
        forwards (events st) @ replicate (length dl) (Forward False (grad_enabled st))"
    by (auto simp: test_loop_eq split: if_splits)
next
  assume eb: "epoch_body cfg C trl tel e (w0, s0) = Inr (w1, s1)"
  from epoch_body_Inr [OF eb] obtain nw lo st1 where
    tl: "train_loop cfg C trl w0 s0 = Inr (nw, lo, st1)"
    and ps: "params s1 = params st1"
    by blast
  from train_loop_Inr [OF tl] have
    "train_batches cfg C w0 0 trl (0, 0, s0\<lparr>training := True\<rparr>) = Inr (nw, lo, st1)"
    by simp
  from train_batches_params [OF this] ps
  show "params s1 = snd (apply_steps cfg C trl (opt s0, params s0))"
    by (metis snd_conv state.select_convs(1,2) state.surjective state.update_convs(3))
qed

theorem evaluation_frame_witness:
  "forwards (trace_of (test_loop (run_config False 2 2 1 1) (counting_collab [1, 1, 3])
      [[1, 1], [1, 1]] 0 0 (initial_state 5 0))) =
     [Forward False True, Forward False True] \<and>
   snd (apply_steps (run_config False 2 2 1 1) (counting_collab [1, 1, 3])
      [[1, 1], [1, 1], [1, 1]] (0, 5)) = 8"
proof -
  obtain lo st' where tl:
    "test_loop (run_config False 2 2 1 1) (counting_collab [1, 1, 3])
      [[1, 1], [1, 1]] 0 0 (initial_state 5 0) = Inr (lo, st')"
    by (simp add: test_loop_eq run_config_def)
  obtain w1 s1 where eb:
    "epoch_body (run_config False 2 2 1 1) (counting_collab [1, 1, 3])
       [[1, 1], [1, 1], [1, 1]] [[1, 1], [1, 1]] 0 (0, initial_state 5 0) = Inr (w1, s1)"
    using epoch_body_total [of "run_config False 2 2 1 1" "[[1, 1], [1, 1], [1, 1]]"
        "[[1, 1], [1, 1]]" "counting_collab [1, 1, 3]" 0 "(0, initial_state 5 0)"]
    by (auto simp: run_config_def)
  from evaluation_frame [of "run_config False 2 2 1 1" "counting_collab [1, 1, 3]"
      "[[1, 1], [1, 1]]" 0 0 "initial_state 5 0" lo st'
      "[[1, 1], [1, 1], [1, 1]]" "[[1, 1], [1, 1]]" 0 "initial_state 5 0" w1 s1] tl eb
  have "forwards (events st') = [Forward False True, Forward False True]"
    "params s1 = snd (apply_steps (run_config False 2 2 1 1) (counting_collab [1, 1, 3])
      [[1, 1], [1, 1], [1, 1]] (0, 5))"
    by (simp_all add: numeral_2_eq_2)
  then show ?thesis
    unfolding tl by (simp add: run_config_def counting_collab_def)
qed

text \<open>
  Against C5 as stated: from the state in which the epoch loop starts, the
  forward passes of an evaluation pass over two batches run in evaluation mode
  with gradient computation enabled.
\<close>

theorem evaluation_grad_counterexample:
  "forwards (trace_of (test_loop (run_config False 2 2 1 1) (counting_collab [1, 1, 3])
      [[1, 1], [1, 1]] 0 0 (initial_state 0 0))) = [Forward False True, Forward False True]"
  by (simp add: run_eval)

subsection \<open>C6: the one-epoch scenario\<close>

text \<open>
  C6 as amended: a single-device run with \<open>max_epochs = 1\<close>,
  \<open>save_interval = 1\<close>, \<open>print_every = 2\<close>, four training batches and two test
  batches writes exactly one checkpoint and one sample image, flushes twice and
  logs two \<open>train/bpd\<close> entries at indices 0 and 1, logs one \<open>test/bpd\<close>
  entry at index 2, and ends with write index 3.
\<close>

theorem scenario_outcome:
  "writes_of (train \<lparr>use_tpu = False, batch_size = bsz, print_every = 2,
        save_interval = 1, max_epochs = 1\<rparr> C [b1, b2, b3, b4] [t1, t2] p ob) = Some 3 \<and>
   map tag_step (scalars (trace_of (train \<lparr>use_tpu = False, batch_size = bsz,
        print_every = 2, save_interval = 1, max_epochs = 1\<rparr> C
        [b1, b2, b3, b4] [t1, t2] p ob))) =
     [(''train/bpd'', 0), (''train/bpd'', 1), (''test/bpd'', 2)] \<and>
   flush_count (trace_of (train \<lparr>use_tpu = False, batch_size = bsz,
        print_every = 2, save_interval = 1, max_epochs = 1\<rparr> C
        [b1, b2, b3, b4] [t1, t2] p ob)) = 2 \<and>
   artifacts (trace_of (train \<lparr>use_tpu = False, batch_size = bsz,
        print_every = 2, save_interval = 1, max_epochs = 1\<rparr> C
        [b1, b2, b3, b4] [t1, t2] p ob)) =
     [Checkpoint (''models/'' @ model_name C @ ''_0.pth''),
      ImageGrid (''images/'' @ model_name C @ ''_0.png'') 5 0]"
proof -
  define cfg where "cfg = \<lparr>use_tpu = False, batch_size = bsz, print_every = 2,
        save_interval = 1, max_epochs = 1\<rparr>"
  have cfg: "\<not> use_tpu cfg" "print_every cfg = 2" "save_interval cfg = 1" "max_epochs cfg = 1"
    by (simp_all add: cfg_def)
  obtain w st where run: "train cfg C [b1, b2, b3, b4] [t1, t2] p ob = Inr (w, st)"
    using train_total [of cfg "[b1, b2, b3, b4]" "[t1, t2]" C p ob] cfg by auto
  then have ep: "epochs cfg C [b1, b2, b3, b4] [t1, t2] [0] (0, initial_state p ob) = Inr (w, st)"
    by (simp add: train_def cfg)
  from epochs_Cons_Inr [OF ep]
  have eb: "epoch_body cfg C [b1, b2, b3, b4] [t1, t2] 0 (0, initial_state p ob) = Inr (w, st)"
    by auto
  from epoch_body_obs [OF eb] cfg
  have "w = 3" "flush_count (events st) = 2"
    "map tag_step (scalars (events st)) =
       [(''train/bpd'', 0), (''train/bpd'', 1), (''test/bpd'', 2)]"
    "artifacts (events st) =
       [Checkpoint (checkpoint_path (model_name C) 0),
        ImageGrid (image_path (model_name C) 0) 5 0]"
    by (auto simp: upt_rec)
  then show ?thesis
    unfolding cfg_def [symmetric] run
    by (simp add: checkpoint_path_def image_path_def str_nat.simps)
qed

text \<open>
  Against C6 as stated: on such a run the write index ends at 3, not at 2.
\<close>

theorem scenario_counterexample:
  "writes_of (train (run_config False 2 2 1 1) (counting_collab [1, 1, 3])
      [[1, 1], [1, 1], [1, 1], [1, 1]] [[1, 1], [1, 1]] 0 0) = Some 3 \<and>
   writes_of (train (run_config False 2 2 1 1) (counting_collab [1, 1, 3])
      [[1, 1], [1, 1], [1, 1], [1, 1]] [[1, 1], [1, 1]] 0 0) \<noteq> Some 2"
  by (simp add: run_eval)

subsection \<open>C7: the metric under a change of batch shape\<close>

text \<open>
  C7 says that the metric does not change when the same examples, with the
  same total loss, come in half as many batches of twice the size. Four
  examples of loss 1 each are run as four batches of one (batch size 1,
  \<open>print_every = 4\<close>) and as two batches of two (batch size 2,
  \<open>print_every = 2\<close>), as training set and as test set. The training flush
  metric is 4 / (4 * ln 2) in both runs; the test metric is 4 / (3 * ln 2) in
  the first and 4 / (2 * ln 2) in the second.
\<close>

theorem batch_shape_dependence:
  "scalar_values ''test/bpd''
     (trace_of (train (run_config False 1 4 1 1) (counting_collab [1, 1, 1])
        [[1], [1], [1], [1]] [[1], [1], [1], [1]] 0 0)) = [Finite (4 / (3 * ln 2))] \<and>
   scalar_values ''test/bpd''
     (trace_of (train (run_config False 2 2 1 1) (counting_collab [1, 1, 1])
        [[1, 1], [1, 1]] [[1, 1], [1, 1]] 0 0)) = [Finite (4 / (2 * ln 2))] \<and>
   scalar_values ''train/bpd''
     (trace_of (train (run_config False 1 4 1 1) (counting_collab [1, 1, 1])
        [[1], [1], [1], [1]] [[1], [1], [1], [1]] 0 0)) = [Finite (4 / (4 * ln 2))] \<and>
   scalar_values ''train/bpd''
     (trace_of (train (run_config False 2 2 1 1) (counting_collab [1, 1, 1])
        [[1, 1], [1, 1]] [[1, 1], [1, 1]] 0 0)) = [Finite (4 / (4 * ln 2))] \<and>
   Finite (4 / (3 * ln 2)) \<noteq> Finite (4 / (2 * ln 2))"
  by (simp add: run_eval, simp add: field_simps)

subsection \<open>C8: the write index in multi-replica mode\<close>

text \<open>
  C8: in a multi-replica run that completes, the scalars logged are exactly
  one \<open>test/bpd\<close> per epoch, the one of epoch \<open>e\<close> at write index \<open>e\<close>; no
  \<open>train/bpd\<close> value is logged; and the write index ends at the number of
  epochs, whatever the number of flushes of the training passes.
\<close>

theorem tpu_write_index:
  assumes "use_tpu cfg" and "train cfg C trl tel p ob = Inr (w, st')"
  shows "map tag_step (scalars (events st')) =
           map (Pair ''test/bpd'') [0..<nat (max_epochs cfg)] \<and>
         scalar_values ''train/bpd'' (events st') = [] \<and>
         w = nat (max_epochs cfg)"
proof -
  from assms(2) have run:
    "epochs cfg C trl tel [0..<nat (max_epochs cfg)] (0, initial_state p ob) = Inr (w, st')"
    by (simp add: train_def)
  from epochs_tpu_scalars [OF run assms(1)]
  have sc: "map tag_step (scalars (events st')) =
           map (Pair ''test/bpd'') [0..<nat (max_epochs cfg)]"
    by simp
  have "fst x = ''test/bpd''" if "x \<in> set (scalars (events st'))" for x
  proof -
    from that have "tag_step x \<in> set (map tag_step (scalars (events st')))" by simp
    then have "fst (tag_step x) = ''test/bpd''" unfolding sc by auto
    then show ?thesis by (cases x) simp
  qed
  then have "filter (\<lambda>x. fst x = ''train/bpd'') (scalars (events st')) = []"
    by (auto simp: filter_empty_conv)
  then have "scalar_values ''train/bpd'' (events st') = []"
    by (simp add: scalar_values_def)
  moreover from epochs_writes [OF run] assms(1) have "w = nat (max_epochs cfg)"
    by simp
  ultimately show ?thesis using sc by simp
qed

theorem tpu_write_index_witness:
  "writes_of (train (run_config True 2 1 1 2) (counting_collab [1, 1, 3])
      [[1, 1], [1, 1]] [[1, 1], [1, 1]] 0 0) = Some 2 \<and>
   map tag_step (scalars (trace_of (train (run_config True 2 1 1 2)
      (counting_collab [1, 1, 3]) [[1, 1], [1, 1]] [[1, 1], [1, 1]] 0 0))) =
     [(''test/bpd'', 0), (''test/bpd'', 1)]"
proof -
  obtain w st where run: "train (run_config True 2 1 1 2) (counting_collab [1, 1, 3])
      [[1, 1], [1, 1]] [[1, 1], [1, 1]] 0 0 = Inr (w, st)"
    using train_total [of "run_config True 2 1 1 2" "[[1, 1], [1, 1]]"
        "[[1, 1], [1, 1]]" "counting_collab [1, 1, 3]" 0 0]
    by (auto simp: run_config_def)
  have tpu: "use_tpu (run_config True 2 1 1 2)" by (simp add: run_config_def)
  from tpu_write_index [OF tpu run] show ?thesis
    unfolding run by (simp add: run_config_def upt_rec)
qed

subsection \<open>C10: the training loss printed after an epoch\<close>

text \<open>
  C10: in single-device mode with a positive \<open>print_every\<close>, the loss that the
  training pass returns, and that the epoch loop prints after it, is the sum
  of the losses of the batches after the last flush only: of the last
  (number of batches mod \<open>print_every\<close>) batches. When \<open>print_every\<close> divides
  the number of training batches the value is 0.
\<close>

theorem residual_training_loss:
  assumes "\<not> use_tpu cfg" and "0 < print_every cfg"
    and "epoch_body cfg C trl tel e (w, st) = Inr (w', st')"
  shows "\<exists>nw lo st1.
     train_loop cfg C trl w st = Inr (nw, lo, st1) \<and>
     finished (events st') = finished (events st) @ [(e, Some lo)] \<and>
     lo = sum_list (drop (length trl - length trl mod nat (print_every cfg))
                      (pass_losses cfg C trl (opt st, params st))) \<and>
     (length trl mod nat (print_every cfg) = 0 \<longrightarrow> lo = 0)"
proof -
  from epoch_body_Inr [OF assms(3)] assms(1) obtain nw lo st1 where
    tl: "train_loop cfg C trl w st = Inr (nw, lo, st1)"
    and ev: "events st' = events st1 @
       PrintFinished e (Some lo) #
       replicate (length tel) (Forward False (grad_enabled st1)) @
       [AddScalar ''test/bpd''
          (fdiv (sum_list (map (loss_function C False (params st1)) tel))
             (test_deno cfg C (length tel - 1)))
          (w + nw),
        PrintValidation e
          (fdiv (sum_list (map (loss_function C False (params st1)) tel))
             (test_deno cfg C (length tel - 1)))] @
       (if (int e + 1) mod save_interval cfg = 0
        then [TorchSave (checkpoint_path (model_name C) e) (params st1),
              SaveImage (image_path (model_name C) e) 5 0]
        else [])"
    by auto
  from train_loop_Inr [OF tl] have ne: "trl \<noteq> []"
    and tb: "train_batches cfg C w 0 trl (0, 0, st\<lparr>training := True\<rparr>) = Inr (nw, lo, st1)"
    by simp_all
  from train_batches_quiet [OF tb] ev
  have fin: "finished (events st') = finished (events st) @ [(e, Some lo)]"
    by simp
  from train_batches_residual [OF tb assms(2)]
  have res: "lo = sum_list (drop (length trl - length trl mod nat (print_every cfg))
                      (pass_losses cfg C trl (opt st, params st)))"
    by simp
  have zero: "length trl mod nat (print_every cfg) = 0 \<longrightarrow> lo = 0"
    using res by (simp add: length_pass_losses)
  show ?thesis
  proof (intro exI conjI)
    show "train_loop cfg C trl w st = Inr (nw, lo, st1)" by (rule tl)
    show "finished (events st') = finished (events st) @ [(e, Some lo)]" by (rule fin)
    show "lo = sum_list (drop (length trl - length trl mod nat (print_every cfg))
                      (pass_losses cfg C trl (opt st, params st)))" by (rule res)
    show "length trl mod nat (print_every cfg) = 0 \<longrightarrow> lo = 0" by (rule zero)
  qed
qed

theorem residual_training_loss_witness:
  "finished (trace_of (epoch_body (run_config False 1 2 1 1) (counting_collab [1, 1, 3])
      [[1], [2], [3], [4], [5]] [[1], [1]] 0 (0, initial_state 0 0))) = [(0, Some 5)] \<and>
   finished (trace_of (epoch_body (run_config False 1 2 1 1) (counting_collab [1, 1, 3])
      [[1], [2], [3], [4]] [[1], [1]] 0 (0, initial_state 0 0))) = [(0, Some 0)]"
proof -
  have cfg: "\<not> use_tpu (run_config False 1 2 1 1)" "0 < print_every (run_config False 1 2 1 1)"
    by (simp_all add: run_config_def)
  obtain w1 s1 where eb1:
    "epoch_body (run_config False 1 2 1 1) (counting_collab [1, 1, 3])
       [[1], [2], [3], [4], [5]] [[1], [1]] 0 (0, initial_state 0 0) = Inr (w1, s1)"
    using epoch_body_total [of "run_config False 1 2 1 1" "[[1], [2], [3], [4], [5]]"
        "[[1], [1]]" "counting_collab [1, 1, 3]" 0 "(0, initial_state 0 0)"]
    by (auto simp: run_config_def)
  obtain w2 s2 where eb2:
    "epoch_body (run_config False 1 2 1 1) (counting_collab [1, 1, 3])
       [[1], [2], [3], [4]] [[1], [1]] 0 (0, initial_state 0 0) = Inr (w2, s2)"
    using epoch_body_total [of "run_config False 1 2 1 1" "[[1], [2], [3], [4]]"
        "[[1], [1]]" "counting_collab [1, 1, 3]" 0 "(0, initial_state 0 0)"]
    by (auto simp: run_config_def)
  from residual_training_loss [OF cfg eb1]
  have "finished (events s1) = [(0, Some 5)]"
    by (auto simp: run_config_def counting_collab_def)
  moreover from residual_training_loss [OF cfg eb2]
  have "finished (events s2) = [(0, Some 0)]"
    by (auto simp: run_config_def)
  ultimately show ?thesis
    unfolding eb1 eb2 by simp
qed

end
